theory Spec2Isabelle
  imports Complex_Main
begin

section \<open>TSinglePeak: the peak-model composition engine\<close>

text \<open>
  A shallow embedding of \<^verbatim>\<open>libraries/TGRSIAnalysis/TPeakFitting/TSinglePeak.cxx\<close>.

  \<^item> \<^verbatim>\<open>Double_t\<close> is a type variable \<open>'d\<close> of which only \<open>0\<close>, \<open>1\<close> and \<open>+\<close> are used, so
    nothing below depends on how floating-point addition rounds.
  \<^item> \<^verbatim>\<open>Int_t\<close>, \<^verbatim>\<open>Color_t\<close> and \<^verbatim>\<open>Style_t\<close> are \<open>int\<close>: the only arithmetic on them is the
    sum of two parameter counts and a loop counter below it.
  \<^item> A \<^verbatim>\<open>Double_t*\<close> argument is the list of values readable from that pointer;
    \<^verbatim>\<open>&par[n]\<close> is \<open>drop n par\<close>, and forming it beyond the end of the array is written out
    as a fault.
  \<^item> The argument \<^verbatim>\<open>dim\<close> of the evaluation functions is written \<open>x\<close>.
  \<^item> \<^verbatim>\<open>TF1*\<close> members are optional addresses into an explicit store of \<^verbatim>\<open>TF1\<close> objects,
    \<open>None\<close> being the null pointer.
\<close>

subsection \<open>Outcomes of a call\<close>

text \<open>
  \<open>IndexOutOfRange\<close> is \<^verbatim>\<open>std::out_of_range\<close>, the only exception a path of the source can
  see (thrown by \<^verbatim>\<open>std::vector::at\<close>). \<open>NotInitialized\<close> is the second error the
  specification names; no path of the source raises it.
\<close>

datatype error = IndexOutOfRange | NotInitialized

text \<open>Undefined behaviour of the C++ program, kept apart from raised errors.\<close>

datatype fault = NullDereference | DanglingPointer | OutOfBounds

datatype 'a outcome = Returns 'a | Raises error | Undefined fault

fun obind :: "'a outcome \<Rightarrow> ('a \<Rightarrow> 'b outcome) \<Rightarrow> 'b outcome" where
  "obind (Returns x) f = f x"
| "obind (Raises e) f = Raises e"
| "obind (Undefined u) f = Undefined u"

subsection \<open>ROOT's TF1, by its interface\<close>

text \<open>
  \<^verbatim>\<open>TF1\<close> belongs to ROOT, not to this repository. An object is modelled by the attributes
  the source reads and writes. \<open>fFunctor\<close> holds the class and method name given to the
  constructor when the object is bound to a member function. The parameter count
  \<^verbatim>\<open>GetNpar()\<close> is the length of the parameter array, which ROOT fixes at construction.
\<close>

record 'd TF1 =
  fName :: string
  fFunctor :: "(string \<times> string) option"
  fXmin :: 'd
  fXmax :: 'd
  fParams :: "'d list"
  fLineColor :: int
  fLineStyle :: int

text \<open>
  What the source calls but does not define. \<open>PeakFunction\<close> and \<open>BackgroundFunction\<close> are
  the virtual methods of \<^verbatim>\<open>TSinglePeak\<close> that its subclasses implement; \<open>TF1_EvalPar\<close> is
  ROOT's evaluation of a function object at a point with a given parameter array;
  \<open>gStyle_FuncColor\<close> and \<open>gStyle_FuncStyle\<close> are the line attributes ROOT gives a new
  function object.
\<close>

record 'd env =
  PeakFunction :: "'d list \<Rightarrow> 'd list \<Rightarrow> 'd"
  BackgroundFunction :: "'d list \<Rightarrow> 'd list \<Rightarrow> 'd"
  TF1_EvalPar :: "'d TF1 \<Rightarrow> 'd list \<Rightarrow> 'd list \<Rightarrow> 'd"
  gStyle_FuncColor :: int
  gStyle_FuncStyle :: int

definition TF1_ctor ::
  "'d::zero env \<Rightarrow> string \<Rightarrow> string \<times> string \<Rightarrow> 'd \<Rightarrow> 'd \<Rightarrow> int \<Rightarrow> 'd TF1" where
  "TF1_ctor env name method xmin xmax npar =
     \<lparr>fName = name, fFunctor = Some method, fXmin = xmin, fXmax = xmax,
      fParams = replicate (nat npar) 0,
      fLineColor = gStyle_FuncColor env, fLineStyle = gStyle_FuncStyle env\<rparr>"

definition TF1_GetNpar :: "'d TF1 \<Rightarrow> int" where
  "TF1_GetNpar f = int (length (fParams f))"

text \<open>ROOT answers \<open>0\<close> for a parameter index that is out of range, and ignores a write there.\<close>

definition TF1_GetParameter :: "'d::zero TF1 \<Rightarrow> int \<Rightarrow> 'd" where
  "TF1_GetParameter f i = (if 0 \<le> i \<and> i < TF1_GetNpar f then fParams f ! nat i else 0)"

definition TF1_SetParameter :: "'d TF1 \<Rightarrow> int \<Rightarrow> 'd \<Rightarrow> 'd TF1" where
  "TF1_SetParameter f i v =
     (if 0 \<le> i \<and> i < TF1_GetNpar f then f\<lparr>fParams := (fParams f)[nat i := v]\<rparr> else f)"

text \<open>
  \<^verbatim>\<open>SetParameters(const Double_t*)\<close> copies as many values as the receiver has parameters;
  a source array that is shorter is read beyond its end.
\<close>

definition TF1_SetParameters :: "'d TF1 \<Rightarrow> 'd list \<Rightarrow> 'd TF1 outcome" where
  "TF1_SetParameters f src =
     (if length (fParams f) \<le> length src
      then Returns (f\<lparr>fParams := take (length (fParams f)) src\<rparr>)
      else Undefined OutOfBounds)"

definition TF1_SetLineColor :: "'d TF1 \<Rightarrow> int \<Rightarrow> 'd TF1" where
  "TF1_SetLineColor f c = f\<lparr>fLineColor := c\<rparr>"

definition TF1_SetLineStyle :: "'d TF1 \<Rightarrow> int \<Rightarrow> 'd TF1" where
  "TF1_SetLineStyle f c = f\<lparr>fLineStyle := c\<rparr>"

subsection \<open>The store of function objects\<close>

type_synonym addr = nat

type_synonym 'd heap = "(addr \<times> 'd TF1) list"

fun heap_lookup :: "'d heap \<Rightarrow> addr \<Rightarrow> 'd TF1 option" where
  "heap_lookup [] a = None"
| "heap_lookup ((k, v) # h) a = (if k = a then Some v else heap_lookup h a)"

fun heap_max :: "'d heap \<Rightarrow> addr" where
  "heap_max [] = 0"
| "heap_max ((k, v) # h) = max k (heap_max h)"

text \<open>\<^verbatim>\<open>new\<close> returns an address that no live object has.\<close>

definition heap_fresh :: "'d heap \<Rightarrow> addr" where
  "heap_fresh h = Suc (heap_max h)"

fun heap_store :: "'d heap \<Rightarrow> addr \<Rightarrow> 'd TF1 \<Rightarrow> 'd heap" where
  "heap_store [] a x = [(a, x)]"
| "heap_store ((k, v) # h) a x = (if k = a then (k, x) # h else (k, v) # heap_store h a x)"

fun heap_delete :: "'d heap \<Rightarrow> addr \<Rightarrow> 'd heap" where
  "heap_delete [] a = []"
| "heap_delete ((k, v) # h) a = (if k = a then heap_delete h a else (k, v) # heap_delete h a)"

definition deref :: "'d heap \<Rightarrow> addr option \<Rightarrow> 'd TF1 outcome" where
  "deref h p =
     (case p of
        None \<Rightarrow> Undefined NullDereference
      | Some a \<Rightarrow> (case heap_lookup h a of
                     None \<Rightarrow> Undefined DanglingPointer
                   | Some f \<Rightarrow> Returns f))"

subsection \<open>The TSinglePeak object and the program state\<close>

text \<open>
  The data members the source file uses: \<open>fListOfBGPars\<close> is read with \<^verbatim>\<open>at\<close> and
  returned as \<^verbatim>\<open>bool\<close>; the other three are tested against null and dereferenced as
  \<^verbatim>\<open>TF1*\<close>.
\<close>

record TSinglePeak =
  fListOfBGPars :: "bool list"
  fTotalFunction :: "addr option"
  fBackgroundFunction :: "addr option"
  fGlobalBackground :: "addr option"

text \<open>
  \<open>drawn\<close> is the rendering surface: the requests \<^verbatim>\<open>TF1::Draw\<close> has received, each with
  the address and the value of the object at that moment and the draw option.
\<close>

record 'd state =
  heap :: "'d heap"
  peak :: TSinglePeak
  drawn :: "(addr \<times> 'd TF1 \<times> string) list"

datatype cerr_item = Str string | Num int | Endl

subsection \<open>The member functions\<close>

text \<open>
  \<^verbatim>\<open>std::vector<bool>::at\<close> with an \<^verbatim>\<open>Int_t\<close> argument: a negative index converts to
  an unsigned value above every vector size.
\<close>

definition vector_at :: "bool list \<Rightarrow> int \<Rightarrow> bool outcome" where
  "vector_at v i =
     (if 0 \<le> i \<and> i < int (length v) then Returns (v ! nat i) else Raises IndexOutOfRange)"

text \<open>The result is paired with what the call wrote to \<^verbatim>\<open>std::cerr\<close>.\<close>

definition IsBackgroundParameter :: "TSinglePeak \<Rightarrow> int \<Rightarrow> (bool \<times> cerr_item list) outcome" where
  "IsBackgroundParameter this par =
     (case vector_at (fListOfBGPars this) par of
        Returns b \<Rightarrow> Returns (b, [])
      | Raises e \<Rightarrow>
          (if e = IndexOutOfRange
           then Returns (True, [Str ''Parameter not in list: '', Num par, Endl])
           else Raises e)
      | Undefined u \<Rightarrow> Undefined u)"

definition IsPeakParameter :: "TSinglePeak \<Rightarrow> int \<Rightarrow> (bool \<times> cerr_item list) outcome" where
  "IsPeakParameter this par =
     obind (IsBackgroundParameter this par) (\<lambda>(b, err). Returns (\<not> b, err))"

definition GetNParameters :: "'d state \<Rightarrow> int outcome" where
  "GetNParameters s =
     (case fTotalFunction (peak s) of
        Some a \<Rightarrow> obind (deref (heap s) (Some a)) (\<lambda>t. Returns (TF1_GetNpar t))
      | None \<Rightarrow> Returns 0)"

definition GetBackgroundFunction ::
  "'d::{zero,one} env \<Rightarrow> 'd state \<Rightarrow> (addr \<times> 'd state) outcome" where
  "GetBackgroundFunction env s =
     (case fBackgroundFunction (peak s) of
        None \<Rightarrow>
          obind (deref (heap s) (fTotalFunction (peak s))) (\<lambda>t.
            let a = heap_fresh (heap s);
                bg = TF1_ctor env ''peak_bg'' (''TSinglePeak'', ''BackgroundFunction'')
                       0 1 (TF1_GetNpar t);
                s1 = s\<lparr>heap := heap_store (heap s) a bg,
                       peak := (peak s)\<lparr>fBackgroundFunction := Some a\<rparr>\<rparr>;
                s2 = s1\<lparr>heap := heap_store (heap s1) a (TF1_SetLineStyle bg 9)\<rparr>
            in Returns (a, s2))
      | Some a \<Rightarrow> Returns (a, s))"

definition TotalFunction :: "'d::plus env \<Rightarrow> 'd list \<Rightarrow> 'd list \<Rightarrow> 'd" where
  "TotalFunction env x par = PeakFunction env x par + BackgroundFunction env x par"

text \<open>The argument \<^verbatim>\<open>fTotalFunction->GetParameters()\<close> is evaluated before the call on
  \<^verbatim>\<open>fBackgroundFunction\<close>.\<close>

definition UpdateBackgroundParameters :: "'d state \<Rightarrow> 'd state outcome" where
  "UpdateBackgroundParameters s =
     obind (deref (heap s) (fTotalFunction (peak s))) (\<lambda>t.
       case fBackgroundFunction (peak s) of
         None \<Rightarrow> Undefined NullDereference
       | Some b \<Rightarrow>
           obind (deref (heap s) (Some b)) (\<lambda>bg.
             obind (TF1_SetParameters bg (fParams t)) (\<lambda>bg'.
               Returns (s\<lparr>heap := heap_store (heap s) b bg'\<rparr>))))"

definition PeakOnGlobalFunction ::
  "'d::{zero,plus} env \<Rightarrow> 'd state \<Rightarrow> 'd list \<Rightarrow> 'd list \<Rightarrow> 'd outcome" where
  "PeakOnGlobalFunction env s x par =
     (case fGlobalBackground (peak s) of
        None \<Rightarrow> Returns 0
      | Some ga \<Rightarrow>
          obind (deref (heap s) (fTotalFunction (peak s))) (\<lambda>t.
            obind (deref (heap s) (Some ga)) (\<lambda>g.
              if TF1_GetNpar t \<le> int (length par)
              then Returns (PeakFunction env x par
                            + TF1_EvalPar env g x (drop (nat (TF1_GetNpar t)) par))
              else Undefined OutOfBounds)))"

text \<open>The two copy loops of \<^verbatim>\<open>Draw\<close>, on the temporary function object.\<close>

function copy_total_loop :: "'d::zero TF1 \<Rightarrow> int \<Rightarrow> 'd TF1 \<Rightarrow> 'd TF1" where
  "copy_total_loop t i tmp =
     (if i < TF1_GetNpar t
      then copy_total_loop t (i + 1) (TF1_SetParameter tmp i (TF1_GetParameter t i))
      else tmp)"
  by pat_completeness auto
termination
  by (relation "measure (\<lambda>(t, i, tmp). nat (TF1_GetNpar t - i))") auto

function copy_global_loop :: "'d::zero TF1 \<Rightarrow> 'd TF1 \<Rightarrow> int \<Rightarrow> 'd TF1 \<Rightarrow> 'd TF1" where
  "copy_global_loop t g i tmp =
     (if i < TF1_GetNpar g
      then copy_global_loop t g (i + 1)
             (TF1_SetParameter tmp (i + TF1_GetNpar t) (TF1_GetParameter g i))
      else tmp)"
  by pat_completeness auto
termination
  by (relation "measure (\<lambda>(t, g, i, tmp). nat (TF1_GetNpar g - i))") auto

text \<open>
  The temporary object comes from \<^verbatim>\<open>new\<close>, so it is neither the total function nor the
  global background: the loops read those two as they were found and write the temporary
  only. \<^verbatim>\<open>tmp_func->Draw(opt)\<close> hands the object to the rendering surface and
  \<^verbatim>\<open>tmp_func->Delete()\<close> frees it.
\<close>

definition Draw :: "'d::zero env \<Rightarrow> 'd state \<Rightarrow> string \<Rightarrow> 'd state outcome" where
  "Draw env s opt =
     (case fGlobalBackground (peak s) of
        None \<Rightarrow> Returns s
      | Some ga \<Rightarrow>
          obind (deref (heap s) (Some ga)) (\<lambda>g.
            let low = fXmin g; high = fXmax g in
            obind (deref (heap s) (fTotalFunction (peak s))) (\<lambda>t.
              let a = heap_fresh (heap s);
                  tmp0 = TF1_ctor env ''draw_peak'' (''TSinglePeak'', ''PeakOnGlobalFunction'')
                           low high (TF1_GetNpar t + TF1_GetNpar g);
                  tmp1 = copy_total_loop t 0 tmp0;
                  tmp2 = copy_global_loop t g 0 tmp1;
                  tmp3 = TF1_SetLineColor tmp2 (fLineColor t);
                  tmp4 = TF1_SetLineStyle tmp3 (fLineStyle t);
                  s1 = s\<lparr>heap := heap_store (heap s) a tmp4\<rparr>;
                  s2 = s1\<lparr>drawn := drawn s1 @ [(a, tmp4, opt)]\<rparr>
              in Returns (s2\<lparr>heap := heap_delete (heap s2) a\<rparr>))))"

subsection \<open>A fitted peak on a shared background\<close>

text \<open>
  A peak with one amplitude parameter on a linear background \<open>(b0, b1)\<close>, fitted to
  \<open>[10, 2, 1/2]\<close>, and a linear global background with parameters \<open>[1, 1]\<close>.
  \<open>example_unbuilt\<close> is the same peak before its total function exists,
  \<open>example_alone\<close> the peak without a global background, \<open>example_fitted\<close> the
  peak after its background function has been built, and \<open>example_refitted\<close> the
  peak after the fitted values have been copied into the background function.
\<close>

definition example_env :: "real env" where
  "example_env =
     \<lparr>PeakFunction = (\<lambda>x par. par ! 0),
      BackgroundFunction = (\<lambda>x par. par ! 1 + par ! 2 * x ! 0),
      TF1_EvalPar = (\<lambda>f x par. par ! 0 + par ! 1 * x ! 0),
      gStyle_FuncColor = 2, gStyle_FuncStyle = 1\<rparr>"

definition example_total :: "real TF1" where
  "example_total =
     \<lparr>fName = ''total'', fFunctor = Some (''TSinglePeak'', ''TotalFunction''),
      fXmin = 0, fXmax = 10, fParams = [10, 2, 1 / 2], fLineColor = 4, fLineStyle = 2\<rparr>"

definition example_global :: "real TF1" where
  "example_global =
     \<lparr>fName = ''global_bg'', fFunctor = None,
      fXmin = 0, fXmax = 100, fParams = [1, 1], fLineColor = 1, fLineStyle = 1\<rparr>"

definition example_peak :: TSinglePeak where
  "example_peak =
     \<lparr>fListOfBGPars = [False, True, True], fTotalFunction = Some 1,
      fBackgroundFunction = None, fGlobalBackground = Some 2\<rparr>"

definition example_state :: "real state" where
  "example_state =
     \<lparr>heap = [(1, example_total), (2, example_global)], peak = example_peak, drawn = []\<rparr>"

definition example_unbuilt :: "real state" where
  "example_unbuilt =
     \<lparr>heap = [(2, example_global)],
      peak = example_peak\<lparr>fTotalFunction := None\<rparr>, drawn = []\<rparr>"

definition example_alone :: "real state" where
  "example_alone =
     \<lparr>heap = [(1, example_total)],
      peak = example_peak\<lparr>fGlobalBackground := None\<rparr>, drawn = []\<rparr>"

definition example_background :: "real TF1" where
  "example_background =
     \<lparr>fName = ''peak_bg'', fFunctor = Some (''TSinglePeak'', ''BackgroundFunction''),
      fXmin = 0, fXmax = 1, fParams = [0, 0, 0], fLineColor = 2, fLineStyle = 9\<rparr>"

definition example_fitted :: "real state" where
  "example_fitted =
     \<lparr>heap = [(1, example_total), (2, example_global), (3, example_background)],
      peak = example_peak\<lparr>fBackgroundFunction := Some 3\<rparr>, drawn = []\<rparr>"

definition example_refitted :: "real state" where
  "example_refitted =
     \<lparr>heap = [(1, example_total), (2, example_global),
              (3, example_background\<lparr>fParams := [10, 2, 1 / 2]\<rparr>)],
      peak = example_peak\<lparr>fBackgroundFunction := Some 3\<rparr>, drawn = []\<rparr>"

declare copy_total_loop.simps [simp del] copy_global_loop.simps [simp del]

lemmas example_defs = example_env_def example_total_def example_global_def example_peak_def
  example_state_def example_unbuilt_def example_alone_def
  example_background_def example_fitted_def example_refitted_def

subsection \<open>The store\<close>

lemma heap_lookup_le_max: "heap_lookup h a = Some v \<Longrightarrow> a \<le> heap_max h"
  by (induction h a rule: heap_lookup.induct) (auto split: if_splits)

lemma heap_lookup_fresh: "heap_lookup h (heap_fresh h) = None"
proof (cases "heap_lookup h (heap_fresh h)")
  case None
  then show ?thesis .
next
  case (Some v)
  then have "heap_fresh h \<le> heap_max h" by (rule heap_lookup_le_max)
  then show ?thesis by (simp add: heap_fresh_def)
qed

lemma heap_lookup_store:
  "heap_lookup (heap_store h a v) b = (if b = a then Some v else heap_lookup h b)"
  by (induction h a v rule: heap_store.induct) auto

lemma heap_store_keys:
  "heap_lookup h a = Some v \<Longrightarrow> map fst (heap_store h a w) = map fst h"
  by (induction h a w rule: heap_store.induct) (auto split: if_splits)

lemma heap_store_store: "heap_store (heap_store h a v) a w = heap_store h a w"
  by (induction h a v rule: heap_store.induct) auto

lemma heap_delete_store: "heap_lookup h a = None \<Longrightarrow> heap_delete (heap_store h a v) a = h"
  by (induction h a v rule: heap_store.induct) (auto split: if_splits)


subsection \<open>The copy loops of Draw\<close>

lemma copy_total_loop_eq:
  "0 \<le> i \<Longrightarrow> i \<le> TF1_GetNpar t \<Longrightarrow> length (fParams t) \<le> length (fParams tmp) \<Longrightarrow>
   copy_total_loop t i tmp =
     tmp\<lparr>fParams := take (nat i) (fParams tmp) @ drop (nat i) (fParams t)
                      @ drop (length (fParams t)) (fParams tmp)\<rparr>"
proof (induction t i tmp rule: copy_total_loop.induct)
  case (1 t i tmp)
  show ?case
  proof (cases "i < TF1_GetNpar t")
    case False
    with "1.prems" have "nat i = length (fParams t)" by (simp add: TF1_GetNpar_def)
    with False show ?thesis by (subst copy_total_loop.simps) simp
  next
    case True
    let ?v = "TF1_GetParameter t i"
    let ?tmp' = "TF1_SetParameter tmp i ?v"
    from True "1.prems" have lt: "nat i < length (fParams t)" "nat i < length (fParams tmp)"
      by (simp_all add: TF1_GetNpar_def)
    have v: "?v = fParams t ! nat i" using True "1.prems" by (simp add: TF1_GetParameter_def)
    have tmp': "?tmp' = tmp\<lparr>fParams := (fParams tmp)[nat i := fParams t ! nat i]\<rparr>"
      using lt "1.prems" by (simp add: TF1_SetParameter_def TF1_GetNpar_def v)
    have "copy_total_loop t i tmp = copy_total_loop t (i + 1) ?tmp'"
      using True by (subst copy_total_loop.simps) simp
    also have "\<dots> = ?tmp'\<lparr>fParams := take (nat (i + 1)) (fParams ?tmp') @ drop (nat (i + 1)) (fParams t)
                      @ drop (length (fParams t)) (fParams ?tmp')\<rparr>"
      using "1.IH"[OF True] True "1.prems" by (simp add: tmp')
    also have "\<dots> = tmp\<lparr>fParams := take (nat i) (fParams tmp) @ drop (nat i) (fParams t)
                      @ drop (length (fParams t)) (fParams tmp)\<rparr>"
    proof -
      have n: "nat (i + 1) = Suc (nat i)" using "1.prems" by simp
      have a: "take (Suc (nat i)) ((fParams tmp)[nat i := fParams t ! nat i])
                 = take (nat i) (fParams tmp) @ [fParams t ! nat i]"
        using lt by (simp add: take_Suc_conv_app_nth)
      have b: "drop (nat i) (fParams t) = fParams t ! nat i # drop (Suc (nat i)) (fParams t)"
        using lt by (simp add: Cons_nth_drop_Suc)
      have c: "drop (length (fParams t)) ((fParams tmp)[nat i := fParams t ! nat i])
                 = drop (length (fParams t)) (fParams tmp)"
        using lt by simp
      show ?thesis by (simp add: tmp' n a b c)
    qed
    finally show ?thesis .
  qed
qed


lemma copy_global_loop_eq:
  "0 \<le> i \<Longrightarrow> i \<le> TF1_GetNpar g \<Longrightarrow>
   length (fParams t) + length (fParams g) \<le> length (fParams tmp) \<Longrightarrow>
   copy_global_loop t g i tmp =
     tmp\<lparr>fParams := take (length (fParams t) + nat i) (fParams tmp) @ drop (nat i) (fParams g)
                      @ drop (length (fParams t) + length (fParams g)) (fParams tmp)\<rparr>"
proof (induction t g i tmp rule: copy_global_loop.induct)
  case (1 t g i tmp)
  let ?n = "length (fParams t)"
  show ?case
  proof (cases "i < TF1_GetNpar g")
    case False
    with "1.prems" have "nat i = length (fParams g)" by (simp add: TF1_GetNpar_def)
    with False show ?thesis by (subst copy_global_loop.simps) simp
  next
    case True
    let ?v = "fParams g ! nat i"
    let ?tmp' = "TF1_SetParameter tmp (i + TF1_GetNpar t) (TF1_GetParameter g i)"
    from True "1.prems" have lt: "nat i < length (fParams g)" "?n + nat i < length (fParams tmp)"
      by (simp_all add: TF1_GetNpar_def)
    have idx: "nat (i + TF1_GetNpar t) = ?n + nat i"
      using "1.prems" by (simp add: TF1_GetNpar_def)
    have tmp': "?tmp' = tmp\<lparr>fParams := (fParams tmp)[?n + nat i := ?v]\<rparr>"
      using lt True "1.prems" idx
      by (simp add: TF1_SetParameter_def TF1_GetParameter_def TF1_GetNpar_def)
    have "copy_global_loop t g i tmp = copy_global_loop t g (i + 1) ?tmp'"
      using True by (subst copy_global_loop.simps) simp
    also have "\<dots> = ?tmp'\<lparr>fParams := take (?n + nat (i + 1)) (fParams ?tmp')
                      @ drop (nat (i + 1)) (fParams g)
                      @ drop (?n + length (fParams g)) (fParams ?tmp')\<rparr>"
      using "1.IH"[OF True] True "1.prems" by (simp add: tmp')
    also have "\<dots> = tmp\<lparr>fParams := take (?n + nat i) (fParams tmp) @ drop (nat i) (fParams g)
                      @ drop (?n + length (fParams g)) (fParams tmp)\<rparr>"
    proof -
      have n: "?n + nat (i + 1) = Suc (?n + nat i)" using "1.prems" by simp
      have a: "take (Suc (?n + nat i)) ((fParams tmp)[?n + nat i := ?v])
                 = take (?n + nat i) (fParams tmp) @ [?v]"
        using lt by (simp add: take_Suc_conv_app_nth)
      have b: "drop (nat i) (fParams g) = ?v # drop (Suc (nat i)) (fParams g)"
        using lt by (simp add: Cons_nth_drop_Suc)
      have b': "nat (i + 1) = Suc (nat i)" using "1.prems" by simp
      have c: "drop (?n + length (fParams g)) ((fParams tmp)[?n + nat i := ?v])
                 = drop (?n + length (fParams g)) (fParams tmp)"
        using lt by simp
      show ?thesis by (simp add: tmp' n a b b' c)
    qed
    finally show ?thesis .
  qed
qed

text \<open>The temporary function object that Draw builds.\<close>

lemma Draw_tmp_eq:
  "TF1_SetLineStyle (TF1_SetLineColor
       (copy_global_loop t g 0 (copy_total_loop t 0
          (TF1_ctor env name m lo hi (TF1_GetNpar t + TF1_GetNpar g))))
       (fLineColor t)) (fLineStyle t)
   = \<lparr>fName = name, fFunctor = Some m, fXmin = lo, fXmax = hi,
      fParams = fParams t @ fParams g,
      fLineColor = fLineColor t, fLineStyle = fLineStyle t\<rparr>"
proof -
  define tmp0 where "tmp0 = TF1_ctor env name m lo hi (TF1_GetNpar t + TF1_GetNpar g)"
  have p0: "fParams tmp0 = replicate (length (fParams t) + length (fParams g)) 0"
    by (simp add: tmp0_def TF1_ctor_def TF1_GetNpar_def nat_add_distrib)
  have t1: "copy_total_loop t 0 tmp0 = tmp0\<lparr>fParams := fParams t @ replicate (length (fParams g)) 0\<rparr>"
    by (subst copy_total_loop_eq) (simp_all add: p0 TF1_GetNpar_def)
  have t2: "copy_global_loop t g 0 (tmp0\<lparr>fParams := fParams t @ replicate (length (fParams g)) 0\<rparr>)
              = tmp0\<lparr>fParams := fParams t @ fParams g\<rparr>"
    by (subst copy_global_loop_eq) (simp_all add: TF1_GetNpar_def)
  have "TF1_SetLineStyle (TF1_SetLineColor (copy_global_loop t g 0 (copy_total_loop t 0 tmp0))
          (fLineColor t)) (fLineStyle t)
        = tmp0\<lparr>fParams := fParams t @ fParams g, fLineColor := fLineColor t,
                fLineStyle := fLineStyle t\<rparr>"
    by (simp add: t1 t2 TF1_SetLineColor_def TF1_SetLineStyle_def)
  then show ?thesis
    by (simp add: tmp0_def TF1_ctor_def)
qed


lemma Draw_eq:
  assumes "fGlobalBackground (peak s) = Some ga" and "heap_lookup (heap s) ga = Some g"
    and "fTotalFunction (peak s) = Some ta" and "heap_lookup (heap s) ta = Some t"
  shows "Draw env s opt =
     Returns (s\<lparr>drawn := drawn s @
        [(heap_fresh (heap s),
          \<lparr>fName = ''draw_peak'', fFunctor = Some (''TSinglePeak'', ''PeakOnGlobalFunction''),
           fXmin = fXmin g, fXmax = fXmax g, fParams = fParams t @ fParams g,
           fLineColor = fLineColor t, fLineStyle = fLineStyle t\<rparr>, opt)]\<rparr>)"
  using assms
  by (simp add: Draw_def deref_def Let_def Draw_tmp_eq heap_delete_store heap_lookup_fresh)

subsection \<open>The claims\<close>

text \<open>
  C1, as amended. For every parameter index outside \<open>[0, N)\<close>, \<open>N\<close> the length of the
  classification table, \<open>IsBackgroundParameter\<close> catches the range error of the table
  access, writes "Parameter not in list: index" to the error stream and returns true
  (Background), and \<open>IsPeakParameter\<close> returns false; no \<open>IndexOutOfRange\<close> error
  reaches the caller.
\<close>

theorem IsBackgroundParameter_out_of_range_default:
  "\<not> (0 \<le> par \<and> par < int (length (fListOfBGPars this))) \<Longrightarrow>
   IsBackgroundParameter this par
     = Returns (True, [Str ''Parameter not in list: '', Num par, Endl])
   \<and> IsPeakParameter this par
     = Returns (False, [Str ''Parameter not in list: '', Num par, Endl])"
  by (simp add: IsPeakParameter_def IsBackgroundParameter_def vector_at_def)

theorem IsBackgroundParameter_out_of_range_default_witness:
  "\<not> (0 \<le> (- 1 :: int) \<and> (- 1 :: int) < int (length (fListOfBGPars example_peak)))
   \<and> IsBackgroundParameter example_peak (- 1)
     = Returns (True, [Str ''Parameter not in list: '', Num (- 1), Endl])
   \<and> IsPeakParameter example_peak (- 1)
     = Returns (False, [Str ''Parameter not in list: '', Num (- 1), Endl])"
  using IsBackgroundParameter_out_of_range_default [where par = "- 1" and this = example_peak] by simp

text \<open>
  C1 as stated fails: at the indices \<open>-1\<close> and \<open>N = 3\<close> the classification returns the
  default "Background" and raises nothing.
\<close>

theorem IsBackgroundParameter_out_of_range_counterexample:
  "IsBackgroundParameter example_peak (- 1)
     = Returns (True, [Str ''Parameter not in list: '', Num (- 1), Endl])
   \<and> IsBackgroundParameter example_peak 3
     = Returns (True, [Str ''Parameter not in list: '', Num 3, Endl])
   \<and> IsBackgroundParameter example_peak (- 1) \<noteq> Raises IndexOutOfRange
   \<and> IsBackgroundParameter example_peak 3 \<noteq> Raises IndexOutOfRange"
  by (simp add: IsBackgroundParameter_def vector_at_def example_peak_def)

text \<open>
  C2. For every \<open>x\<close> and every parameter vector, \<open>TotalFunction\<close> is the sum of
  \<open>PeakFunction\<close> and \<open>BackgroundFunction\<close>, both applied to the full parameter vector.
\<close>

theorem TotalFunction_additive:
  "TotalFunction env x par = PeakFunction env x par + BackgroundFunction env x par"
  by (simp add: TotalFunction_def)

text \<open>
  C3. Without a global background \<open>PeakOnGlobalFunction\<close> returns \<open>0\<close> for every
  \<open>x\<close> and parameter vector. With one attached it returns the peak function plus the
  global background evaluated from offset \<open>N\<close> of the parameter vector, \<open>N\<close> being the
  parameter count of the total function. The callees receive pointers, so that the peak
  function sees \<open>params[0:N]\<close> and the global background \<open>params[N:N+M]\<close> is the
  statement that each reads no further than its own block, which is assumed of both.
\<close>

theorem PeakOnGlobalFunction_value:
  "(fGlobalBackground (peak s) = None \<longrightarrow> PeakOnGlobalFunction env s x par = Returns 0)
   \<and> (fGlobalBackground (peak s) = Some ga \<and> heap_lookup (heap s) ga = Some g
      \<and> fTotalFunction (peak s) = Some ta \<and> heap_lookup (heap s) ta = Some t
      \<and> N = length (fParams t) \<and> M = length (fParams g) \<and> N \<le> length par
      \<and> PeakFunction env x par = PeakFunction env x (take N par)
      \<and> TF1_EvalPar env g x (drop N par) = TF1_EvalPar env g x (take M (drop N par))
      \<longrightarrow> PeakOnGlobalFunction env s x par
            = Returns (PeakFunction env x (take N par)
                       + TF1_EvalPar env g x (take M (drop N par))))"
  by (auto simp add: PeakOnGlobalFunction_def deref_def TF1_GetNpar_def)

theorem PeakOnGlobalFunction_value_witness:
  "PeakOnGlobalFunction example_env example_alone [3] [10, 2, 1 / 2, 1, 1] = Returns 0
   \<and> PeakOnGlobalFunction example_env example_state [3] [10, 2, 1 / 2, 1, 1] = Returns 14"
  using PeakOnGlobalFunction_value [where s = example_alone and env = example_env and x = "[3]"
               and par = "[10, 2, 1 / 2, 1, 1]"]
        PeakOnGlobalFunction_value [where s = example_state and ga = 2 and g = example_global and ta = 1
               and t = example_total and N = 3 and M = 2 and env = example_env and x = "[3]"
               and par = "[10, 2, 1 / 2, 1, 1]"]
  by (simp add: example_defs)

text \<open>
  C4. When no background function is cached and the total function exists, the first call
  of \<open>GetBackgroundFunction\<close> allocates a new function object with as many parameters as
  the total function, range \<open>[0, 1]\<close> and line style 9, and caches its address. The total
  function and every other object of the store are untouched, and of the peak only the
  cache pointer changes. In every state whose cache pointer is set, whatever the cached
  object holds by then, the call returns that pointer and leaves the state as it is: so
  does the call right after the first one, and so does every later one.
\<close>

theorem GetBackgroundFunction_cached:
  assumes "fBackgroundFunction (peak s) = None"
    and "fTotalFunction (peak s) = Some ta"
    and "heap_lookup (heap s) ta = Some t"
  shows "(\<exists>a bg s'.
           GetBackgroundFunction env s = Returns (a, s')
         \<and> heap_lookup (heap s) a = None
         \<and> heap_lookup (heap s') a = Some bg
         \<and> TF1_GetNpar bg = TF1_GetNpar t
         \<and> fXmin bg = 0 \<and> fXmax bg = 1 \<and> fLineStyle bg = 9
         \<and> GetBackgroundFunction env s' = Returns (a, s')
         \<and> peak s' = (peak s)\<lparr>fBackgroundFunction := Some a\<rparr>
         \<and> heap_lookup (heap s') ta = Some t
         \<and> (\<forall>b. b \<noteq> a \<longrightarrow> heap_lookup (heap s') b = heap_lookup (heap s) b)
         \<and> drawn s' = drawn s)
       \<and> (\<forall>c s0. fBackgroundFunction (peak s0) = Some c
            \<longrightarrow> GetBackgroundFunction env s0 = Returns (c, s0))"
proof -
  let ?a = "heap_fresh (heap s)"
  let ?bg0 = "TF1_ctor env ''peak_bg'' (''TSinglePeak'', ''BackgroundFunction'') 0 1
                (TF1_GetNpar t)"
  let ?bg = "TF1_SetLineStyle ?bg0 9"
  let ?s' = "s\<lparr>heap := heap_store (heap s) ?a ?bg,
               peak := (peak s)\<lparr>fBackgroundFunction := Some ?a\<rparr>\<rparr>"
  have fresh: "heap_lookup (heap s) ?a = None" by (rule heap_lookup_fresh)
  with assms(3) have ne: "ta \<noteq> ?a" by auto
  have first: "GetBackgroundFunction env s = Returns (?a, ?s')"
    using assms by (simp add: GetBackgroundFunction_def deref_def Let_def heap_store_store)
  have again: "GetBackgroundFunction env ?s' = Returns (?a, ?s')"
    by (simp add: GetBackgroundFunction_def)
  have look: "heap_lookup (heap ?s') ?a = Some ?bg" by (simp add: heap_lookup_store)
  have npar: "TF1_GetNpar ?bg = TF1_GetNpar t"
    by (simp add: TF1_GetNpar_def TF1_SetLineStyle_def TF1_ctor_def)
  have range: "fXmin ?bg = 0 \<and> fXmax ?bg = 1 \<and> fLineStyle ?bg = 9"
    by (simp add: TF1_SetLineStyle_def TF1_ctor_def)
  have total: "heap_lookup (heap ?s') ta = Some t"
    using ne assms(3) by (simp add: heap_lookup_store)
  have others: "\<forall>b. b \<noteq> ?a \<longrightarrow> heap_lookup (heap ?s') b = heap_lookup (heap s) b"
    by (simp add: heap_lookup_store)
  have pk: "peak ?s' = (peak s)\<lparr>fBackgroundFunction := Some ?a\<rparr>" by simp
  have dr: "drawn ?s' = drawn s" by simp
  have hit: "\<forall>c s0. fBackgroundFunction (peak s0) = Some c
               \<longrightarrow> GetBackgroundFunction env s0 = Returns (c, s0)"
    by (simp add: GetBackgroundFunction_def)
  have "\<exists>a bg s'.
           GetBackgroundFunction env s = Returns (a, s')
         \<and> heap_lookup (heap s) a = None
         \<and> heap_lookup (heap s') a = Some bg
         \<and> TF1_GetNpar bg = TF1_GetNpar t
         \<and> fXmin bg = 0 \<and> fXmax bg = 1 \<and> fLineStyle bg = 9
         \<and> GetBackgroundFunction env s' = Returns (a, s')
         \<and> peak s' = (peak s)\<lparr>fBackgroundFunction := Some a\<rparr>
         \<and> heap_lookup (heap s') ta = Some t
         \<and> (\<forall>b. b \<noteq> a \<longrightarrow> heap_lookup (heap s') b = heap_lookup (heap s) b)
         \<and> drawn s' = drawn s"
    using first fresh look npar range again pk total others dr by blast
  from this hit show ?thesis by (rule conjI)
qed

theorem GetBackgroundFunction_cached_witness:
  "fBackgroundFunction (peak example_state) = None
   \<and> (\<exists>a bg s'. GetBackgroundFunction example_env example_state = Returns (a, s')
         \<and> heap_lookup (heap example_state) a = None
         \<and> heap_lookup (heap s') a = Some bg
         \<and> TF1_GetNpar bg = 3 \<and> fXmin bg = 0 \<and> fXmax bg = 1
         \<and> GetBackgroundFunction example_env s' = Returns (a, s')
         \<and> heap_lookup (heap s') 1 = Some example_total)
   \<and> fBackgroundFunction (peak example_refitted) = Some 3
   \<and> GetBackgroundFunction example_env example_refitted = Returns (3, example_refitted)"
proof -
  have h: "fBackgroundFunction (peak example_state) = None"
    "fTotalFunction (peak example_state) = Some 1"
    "heap_lookup (heap example_state) 1 = Some example_total"
    by (simp_all add: example_state_def example_peak_def)
  have n: "TF1_GetNpar example_total = 3" by (simp add: TF1_GetNpar_def example_total_def)
  from GetBackgroundFunction_cached [OF h, of example_env] obtain a bg s' where
    "GetBackgroundFunction example_env example_state = Returns (a, s')"
    "heap_lookup (heap example_state) a = None"
    "heap_lookup (heap s') a = Some bg"
    "TF1_GetNpar bg = TF1_GetNpar example_total" "fXmin bg = 0" "fXmax bg = 1"
    "GetBackgroundFunction example_env s' = Returns (a, s')"
    "heap_lookup (heap s') 1 = Some example_total"
    by blast
  then have first: "\<exists>a bg s'. GetBackgroundFunction example_env example_state = Returns (a, s')
         \<and> heap_lookup (heap example_state) a = None
         \<and> heap_lookup (heap s') a = Some bg
         \<and> TF1_GetNpar bg = 3 \<and> fXmin bg = 0 \<and> fXmax bg = 1
         \<and> GetBackgroundFunction example_env s' = Returns (a, s')
         \<and> heap_lookup (heap s') 1 = Some example_total"
    using n by auto
  have c: "fBackgroundFunction (peak example_refitted) = Some 3"
    by (simp add: example_defs)
  from GetBackgroundFunction_cached [OF h, of example_env] c
  have later: "GetBackgroundFunction example_env example_refitted = Returns (3, example_refitted)"
    by blast
  from h(1) first c later show ?thesis by blast
qed

text \<open>
  C5, as amended. When the total function and the background function both exist and the
  background function has no more parameters than the total function,
  \<open>UpdateBackgroundParameters\<close> copies the total function's parameter values into the
  background function, whose values then equal the total function's at every index, and
  changes nothing else: the other attributes of the background function, every other
  object of the store, the peak object and the rendering surface are as before. The source has no \<open>NotInitialized\<close> error: with the background
  function absent the null pointer is dereferenced unchecked, which is neither a raised
  error nor a return.
\<close>

theorem UpdateBackgroundParameters_copies:
  "(fTotalFunction (peak s) = Some ta \<and> heap_lookup (heap s) ta = Some t
    \<and> fBackgroundFunction (peak s) = Some ba \<and> heap_lookup (heap s) ba = Some bg
    \<and> length (fParams bg) \<le> length (fParams t)
    \<longrightarrow> (\<exists>s' bg'. UpdateBackgroundParameters s = Returns s'
          \<and> heap_lookup (heap s') ba = Some bg'
          \<and> length (fParams bg') = length (fParams bg)
          \<and> (\<forall>i < length (fParams bg'). fParams bg' ! i = fParams t ! i)
          \<and> heap_lookup (heap s') ta = Some t
          \<and> peak s' = peak s
          \<and> bg' = bg\<lparr>fParams := take (length (fParams bg)) (fParams t)\<rparr>
          \<and> s' = s\<lparr>heap := heap_store (heap s) ba bg'\<rparr>
          \<and> (\<forall>b. b \<noteq> ba \<longrightarrow> heap_lookup (heap s') b = heap_lookup (heap s) b)
          \<and> map fst (heap s') = map fst (heap s)
          \<and> drawn s' = drawn s))
   \<and> (fBackgroundFunction (peak s) = None
      \<longrightarrow> (\<exists>u. UpdateBackgroundParameters s = Undefined u))"
proof (intro conjI impI)
  assume a: "fTotalFunction (peak s) = Some ta \<and> heap_lookup (heap s) ta = Some t
    \<and> fBackgroundFunction (peak s) = Some ba \<and> heap_lookup (heap s) ba = Some bg
    \<and> length (fParams bg) \<le> length (fParams t)"
  let ?bg' = "bg\<lparr>fParams := take (length (fParams bg)) (fParams t)\<rparr>"
  let ?s' = "s\<lparr>heap := heap_store (heap s) ba ?bg'\<rparr>"
  have run: "UpdateBackgroundParameters s = Returns ?s'"
    using a by (simp add: UpdateBackgroundParameters_def deref_def TF1_SetParameters_def)
  have look: "heap_lookup (heap ?s') ba = Some ?bg'" by (simp add: heap_lookup_store)
  have len: "length (fParams ?bg') = length (fParams bg)" using a by simp
  have vals: "\<forall>i < length (fParams ?bg'). fParams ?bg' ! i = fParams t ! i" by simp
  have total: "heap_lookup (heap ?s') ta = Some t"
  proof (cases "ta = ba")
    case True
    with a have "bg = t" by auto
    with True show ?thesis by (simp add: heap_lookup_store)
  next
    case False
    with a show ?thesis by (simp add: heap_lookup_store)
  qed
  have pk: "peak ?s' = peak s" by simp
  have same: "?s' = s\<lparr>heap := heap_store (heap s) ba ?bg'\<rparr>" by simp
  have others: "\<forall>b. b \<noteq> ba \<longrightarrow> heap_lookup (heap ?s') b = heap_lookup (heap s) b"
    by (simp add: heap_lookup_store)
  have keys: "map fst (heap ?s') = map fst (heap s)"
    using a by (simp add: heap_store_keys)
  have dr: "drawn ?s' = drawn s" by simp
  show "\<exists>s' bg'. UpdateBackgroundParameters s = Returns s'
          \<and> heap_lookup (heap s') ba = Some bg'
          \<and> length (fParams bg') = length (fParams bg)
          \<and> (\<forall>i < length (fParams bg'). fParams bg' ! i = fParams t ! i)
          \<and> heap_lookup (heap s') ta = Some t
          \<and> peak s' = peak s
          \<and> bg' = bg\<lparr>fParams := take (length (fParams bg)) (fParams t)\<rparr>
          \<and> s' = s\<lparr>heap := heap_store (heap s) ba bg'\<rparr>
          \<and> (\<forall>b. b \<noteq> ba \<longrightarrow> heap_lookup (heap s') b = heap_lookup (heap s) b)
          \<and> map fst (heap s') = map fst (heap s)
          \<and> drawn s' = drawn s"
    using run look len vals total pk same others keys dr by blast
next
  assume "fBackgroundFunction (peak s) = None"
  then show "\<exists>u. UpdateBackgroundParameters s = Undefined u"
    by (cases "deref (heap s) (fTotalFunction (peak s))")
       (simp_all add: UpdateBackgroundParameters_def deref_def split: option.splits)
qed


theorem UpdateBackgroundParameters_copies_witness:
  "(\<exists>s' bg'. UpdateBackgroundParameters example_fitted = Returns s'
       \<and> heap_lookup (heap s') 3 = Some bg'
       \<and> fParams bg' = [10, 2, 1 / 2]
       \<and> heap_lookup (heap s') 1 = Some example_total
       \<and> peak s' = peak example_fitted
       \<and> s' = example_refitted)
   \<and> fBackgroundFunction (peak example_state) = None
   \<and> (\<exists>u. UpdateBackgroundParameters example_state = Undefined u)"
proof -
  have h: "fTotalFunction (peak example_fitted) = Some 1
    \<and> heap_lookup (heap example_fitted) 1 = Some example_total
    \<and> fBackgroundFunction (peak example_fitted) = Some 3
    \<and> heap_lookup (heap example_fitted) 3 = Some example_background
    \<and> length (fParams example_background) \<le> length (fParams example_total)"
    by (simp add: example_defs)
  have n: "fBackgroundFunction (peak example_state) = None"
    by (simp add: example_defs)
  from h UpdateBackgroundParameters_copies [where s = example_fitted and ta = 1
      and t = example_total and ba = 3 and bg = example_background]
  obtain s' bg' where r: "UpdateBackgroundParameters example_fitted = Returns s'"
    "heap_lookup (heap s') 3 = Some bg'"
    "length (fParams bg') = length (fParams example_background)"
    "\<forall>i < length (fParams bg'). fParams bg' ! i = fParams example_total ! i"
    "heap_lookup (heap s') 1 = Some example_total"
    "peak s' = peak example_fitted"
    "bg' = example_background\<lparr>fParams :=
             take (length (fParams example_background)) (fParams example_total)\<rparr>"
    "s' = example_fitted\<lparr>heap := heap_store (heap example_fitted) 3 bg'\<rparr>"
    by blast
  from r(7,8) have e: "s' = example_refitted"
    by (simp add: example_defs)
  from r(3) have len: "length (fParams bg') = length (fParams example_total)"
    by (simp add: example_defs)
  with r(4) have "fParams bg' = fParams example_total"
    by (simp add: list_eq_iff_nth_eq)
  then have p: "fParams bg' = [10, 2, 1 / 2]" by (simp add: example_total_def)
  from n UpdateBackgroundParameters_copies [where s = example_state]
  have u: "\<exists>u. UpdateBackgroundParameters example_state = Undefined u" by blast
  from r(1,2,5,6) e p n u show ?thesis by blast
qed

text \<open>
  C5 as stated fails: with the background function absent the call does not fail with
  \<open>NotInitialized\<close>; it dereferences the null pointer.
\<close>

theorem UpdateBackgroundParameters_absent_counterexample:
  "UpdateBackgroundParameters example_state = Undefined NullDereference
   \<and> UpdateBackgroundParameters example_state \<noteq> Raises NotInitialized"
  by (simp add: UpdateBackgroundParameters_def deref_def example_state_def example_peak_def)

text \<open>
  C6. \<open>GetNParameters\<close> returns \<open>0\<close> when the total function has not been constructed
  and the total function's parameter count otherwise. It is a constant member function:
  a function of the state that changes nothing, so repeated calls give the same answer.
\<close>

theorem GetNParameters_value:
  "(fTotalFunction (peak s) = None \<longrightarrow> GetNParameters s = Returns 0)
   \<and> (fTotalFunction (peak s) = Some ta \<and> heap_lookup (heap s) ta = Some t
      \<longrightarrow> GetNParameters s = Returns (TF1_GetNpar t))"
  by (simp add: GetNParameters_def deref_def)

theorem GetNParameters_value_witness:
  "GetNParameters example_unbuilt = Returns 0 \<and> GetNParameters example_state = Returns 3"
  using GetNParameters_value [where s = example_unbuilt]
        GetNParameters_value [where s = example_state and ta = 1 and t = example_total]
  by (simp add: example_defs TF1_GetNpar_def)

text \<open>
  C7. With a global background attached (and the total function constructed), \<open>Draw\<close>
  hands the rendering surface a temporary function with \<open>N + M\<close> parameters whose range
  is the global background's, whose parameter values are the total function's \<open>N\<close>
  followed by the global background's \<open>M\<close>, and whose line colour and line style are
  the total function's. Its address was free before the call and is free again after it.
\<close>

theorem Draw_temporary_function:
  assumes "fGlobalBackground (peak s) = Some ga" and "heap_lookup (heap s) ga = Some g"
    and "fTotalFunction (peak s) = Some ta" and "heap_lookup (heap s) ta = Some t"
  shows "\<exists>a tmp s'.
           Draw env s opt = Returns s'
         \<and> drawn s' = drawn s @ [(a, tmp, opt)]
         \<and> TF1_GetNpar tmp = TF1_GetNpar t + TF1_GetNpar g
         \<and> fXmin tmp = fXmin g \<and> fXmax tmp = fXmax g
         \<and> fParams tmp = fParams t @ fParams g
         \<and> fLineColor tmp = fLineColor t \<and> fLineStyle tmp = fLineStyle t
         \<and> heap_lookup (heap s) a = None \<and> heap_lookup (heap s') a = None"
  by (simp add: Draw_eq [OF assms] TF1_GetNpar_def heap_lookup_fresh)

theorem Draw_temporary_function_witness:
  "\<exists>a tmp s'.
       Draw example_env example_state ''same'' = Returns s'
     \<and> drawn s' = [(a, tmp, ''same'')]
     \<and> TF1_GetNpar tmp = 5
     \<and> fXmin tmp = 0 \<and> fXmax tmp = 100
     \<and> fParams tmp = [10, 2, 1 / 2, 1, 1]
     \<and> fLineColor tmp = 4 \<and> fLineStyle tmp = 2
     \<and> heap_lookup (heap example_state) a = None \<and> heap_lookup (heap s') a = None"
proof -
  have h: "fGlobalBackground (peak example_state) = Some 2"
    "heap_lookup (heap example_state) 2 = Some example_global"
    "fTotalFunction (peak example_state) = Some 1"
    "heap_lookup (heap example_state) 1 = Some example_total"
    by (simp_all add: example_defs)
  from Draw_temporary_function [OF h, of example_env "''same''"]
  obtain a tmp s' where r: "Draw example_env example_state ''same'' = Returns s'"
    "drawn s' = drawn example_state @ [(a, tmp, ''same'')]"
    "TF1_GetNpar tmp = TF1_GetNpar example_total + TF1_GetNpar example_global"
    "fXmin tmp = fXmin example_global" "fXmax tmp = fXmax example_global"
    "fParams tmp = fParams example_total @ fParams example_global"
    "fLineColor tmp = fLineColor example_total" "fLineStyle tmp = fLineStyle example_total"
    "heap_lookup (heap example_state) a = None" "heap_lookup (heap s') a = None"
    by blast
  have "drawn s' = [(a, tmp, ''same'')]" using r(2) by (simp add: example_state_def)
  moreover have "TF1_GetNpar tmp = 5"
    using r(3) by (simp add: TF1_GetNpar_def example_total_def example_global_def)
  moreover have "fXmin tmp = 0" "fXmax tmp = 100" "fParams tmp = [10, 2, 1 / 2, 1, 1]"
    "fLineColor tmp = 4" "fLineStyle tmp = 2"
    using r(4-8) by (simp_all add: example_total_def example_global_def)
  ultimately show ?thesis using r(1,9,10) by blast
qed

text \<open>
  C8, as amended. For every index in \<open>[0, N)\<close>, \<open>N\<close> the length of the classification
  table, \<open>IsBackgroundParameter\<close> returns the table entry and \<open>IsPeakParameter\<close> its
  negation. For every index, valid or not, neither operation fails, \<open>IsPeakParameter\<close>
  is the negation of \<open>IsBackgroundParameter\<close>, and both write the same text to the error
  stream.
\<close>

theorem IsPeakParameter_negation:
  "(0 \<le> par \<and> par < int (length (fListOfBGPars this)) \<longrightarrow>
      IsBackgroundParameter this par = Returns (fListOfBGPars this ! nat par, [])
      \<and> IsPeakParameter this par = Returns (\<not> fListOfBGPars this ! nat par, []))
   \<and> (\<not> (0 \<le> par \<and> par < int (length (fListOfBGPars this))) \<longrightarrow>
      IsBackgroundParameter this par
        = Returns (True, [Str ''Parameter not in list: '', Num par, Endl])
      \<and> IsPeakParameter this par
        = Returns (False, [Str ''Parameter not in list: '', Num par, Endl]))
   \<and> (\<exists>b err. IsBackgroundParameter this par = Returns (b, err)
               \<and> IsPeakParameter this par = Returns (\<not> b, err))"
  by (auto simp add: IsPeakParameter_def IsBackgroundParameter_def vector_at_def)

theorem IsPeakParameter_negation_witness:
  "IsBackgroundParameter example_peak 0 = Returns (False, [])
   \<and> IsPeakParameter example_peak 0 = Returns (True, [])
   \<and> IsBackgroundParameter example_peak 3
       = Returns (True, [Str ''Parameter not in list: '', Num 3, Endl])
   \<and> IsPeakParameter example_peak 3
       = Returns (False, [Str ''Parameter not in list: '', Num 3, Endl])"
  using IsPeakParameter_negation [where par = 0 and this = example_peak]
        IsPeakParameter_negation [where par = 3 and this = example_peak]
  by (simp add: example_peak_def)

text \<open>
  C8 as stated fails: at the invalid index \<open>3\<close> \<open>IsPeakParameter\<close> returns false and
  raises no error.
\<close>

theorem IsPeakParameter_out_of_range_counterexample:
  "IsPeakParameter example_peak 3
     = Returns (False, [Str ''Parameter not in list: '', Num 3, Endl])
   \<and> IsPeakParameter example_peak 3 \<noteq> Raises IndexOutOfRange"
  by (simp add: IsPeakParameter_def IsBackgroundParameter_def vector_at_def example_peak_def)

text \<open>
  C9. Without a global background \<open>Draw\<close> returns the state as it found it, nothing
  drawn. Whenever \<open>Draw\<close> returns, the store and the peak object are the ones it
  started from: the total function, the cached background function, the global
  background and their parameter values are unchanged. With the global background and
  the total function constructed it does return.
\<close>

theorem Draw_frame:
  "(fGlobalBackground (peak s) = None \<longrightarrow> Draw env s opt = Returns s)
   \<and> (\<forall>s'. Draw env s opt = Returns s' \<longrightarrow> heap s' = heap s \<and> peak s' = peak s)
   \<and> (fGlobalBackground (peak s) = Some ga \<and> heap_lookup (heap s) ga = Some g
      \<and> fTotalFunction (peak s) = Some ta \<and> heap_lookup (heap s) ta = Some t
      \<longrightarrow> (\<exists>s'. Draw env s opt = Returns s'))"
proof -
  have noop: "fGlobalBackground (peak s) = None \<longrightarrow> Draw env s opt = Returns s"
    by (simp add: Draw_def)
  have frame: "heap s' = heap s \<and> peak s' = peak s" if r: "Draw env s opt = Returns s'" for s'
  proof (cases "fGlobalBackground (peak s)")
    case None
    with r show ?thesis by (simp add: Draw_def)
  next
    case (Some ga)
    show ?thesis
    proof (cases "heap_lookup (heap s) ga")
      case None
      with Some r show ?thesis by (simp add: Draw_def deref_def)
    next
      case g: (Some g)
      show ?thesis
      proof (cases "fTotalFunction (peak s)")
        case None
        with Some g r show ?thesis by (simp add: Draw_def deref_def)
      next
        case ta: (Some ta)
        show ?thesis
        proof (cases "heap_lookup (heap s) ta")
          case None
          with Some g ta r show ?thesis by (simp add: Draw_def deref_def)
        next
          case t: (Some t)
          from r show ?thesis unfolding Draw_eq [OF Some g ta t] by auto
        qed
      qed
    qed
  qed
  have returns: "fGlobalBackground (peak s) = Some ga \<and> heap_lookup (heap s) ga = Some g
      \<and> fTotalFunction (peak s) = Some ta \<and> heap_lookup (heap s) ta = Some t
      \<longrightarrow> (\<exists>s'. Draw env s opt = Returns s')"
    by (simp add: Draw_eq)
  from noop frame returns show ?thesis by blast
qed

theorem Draw_frame_witness:
  "fGlobalBackground (peak example_alone) = None
   \<and> Draw example_env example_alone ''same'' = Returns example_alone
   \<and> (\<exists>s'. Draw example_env example_state ''same'' = Returns s'
          \<and> heap s' = heap example_state \<and> peak s' = peak example_state)"
proof -
  have n: "fGlobalBackground (peak example_alone) = None"
    by (simp add: example_defs)
  have h: "fGlobalBackground (peak example_state) = Some 2
    \<and> heap_lookup (heap example_state) 2 = Some example_global
    \<and> fTotalFunction (peak example_state) = Some 1
    \<and> heap_lookup (heap example_state) 1 = Some example_total"
    by (simp add: example_defs)
  from n Draw_frame [where s = example_alone and env = example_env and opt = "''same''"]
  have a: "Draw example_env example_alone ''same'' = Returns example_alone" by blast
  from h Draw_frame [where s = example_state and env = example_env and opt = "''same''"
      and ga = 2 and g = example_global and ta = 1 and t = example_total]
  have b: "\<exists>s'. Draw example_env example_state ''same'' = Returns s'
          \<and> heap s' = heap example_state \<and> peak s' = peak example_state" by blast
  from n a b show ?thesis by blast
qed

text \<open>
  C10. The first call of \<open>GetBackgroundFunction\<close>, and \<open>PeakOnGlobalFunction\<close> and
  \<open>Draw\<close> with a global background attached, dereference the total function: each of
  them runs into the null dereference exactly when the total function has not been
  constructed. So they are defined only if it has been, and then that branch is not
  reached.
\<close>

theorem TotalFunction_null_precondition:
  "(fBackgroundFunction (peak s) = None \<longrightarrow>
      (GetBackgroundFunction env s = Undefined NullDereference
         \<longleftrightarrow> fTotalFunction (peak s) = None))
   \<and> (fGlobalBackground (peak s) = Some ga \<longrightarrow>
      (PeakOnGlobalFunction env s x par = Undefined NullDereference
         \<longleftrightarrow> fTotalFunction (peak s) = None))
   \<and> (fGlobalBackground (peak s) = Some ga \<and> heap_lookup (heap s) ga = Some g \<longrightarrow>
      (Draw env s opt = Undefined NullDereference
         \<longleftrightarrow> fTotalFunction (peak s) = None))"
  by (auto simp add: GetBackgroundFunction_def PeakOnGlobalFunction_def Draw_def deref_def
        Let_def split: option.splits)


theorem TotalFunction_null_precondition_witness:
  "fBackgroundFunction (peak example_unbuilt) = None
   \<and> fGlobalBackground (peak example_unbuilt) = Some 2
   \<and> GetBackgroundFunction example_env example_unbuilt = Undefined NullDereference
   \<and> PeakOnGlobalFunction example_env example_unbuilt [3] [10, 2, 1 / 2, 1, 1]
       = Undefined NullDereference
   \<and> Draw example_env example_unbuilt ''same'' = Undefined NullDereference
   \<and> GetBackgroundFunction example_env example_state \<noteq> Undefined NullDereference
   \<and> PeakOnGlobalFunction example_env example_state [3] [10, 2, 1 / 2, 1, 1]
       \<noteq> Undefined NullDereference
   \<and> Draw example_env example_state ''same'' \<noteq> Undefined NullDereference"
proof -
  have u: "fBackgroundFunction (peak example_unbuilt) = None"
    "fGlobalBackground (peak example_unbuilt) = Some 2"
    "heap_lookup (heap example_unbuilt) 2 = Some example_global"
    "fTotalFunction (peak example_unbuilt) = None"
    by (simp_all add: example_defs)
  have s: "fBackgroundFunction (peak example_state) = None"
    "fGlobalBackground (peak example_state) = Some 2"
    "heap_lookup (heap example_state) 2 = Some example_global"
    "fTotalFunction (peak example_state) \<noteq> None"
    by (simp_all add: example_defs)
  from u TotalFunction_null_precondition [where s = example_unbuilt and env = example_env
      and ga = 2 and g = example_global and x = "[3]" and par = "[10, 2, 1 / 2, 1, 1]"
      and opt = "''same''"]
  have a: "GetBackgroundFunction example_env example_unbuilt = Undefined NullDereference
    \<and> PeakOnGlobalFunction example_env example_unbuilt [3] [10, 2, 1 / 2, 1, 1]
        = Undefined NullDereference
    \<and> Draw example_env example_unbuilt ''same'' = Undefined NullDereference"
    by simp
  from s TotalFunction_null_precondition [where s = example_state and env = example_env
      and ga = 2 and g = example_global and x = "[3]" and par = "[10, 2, 1 / 2, 1, 1]"
      and opt = "''same''"]
  have b: "GetBackgroundFunction example_env example_state \<noteq> Undefined NullDereference
    \<and> PeakOnGlobalFunction example_env example_state [3] [10, 2, 1 / 2, 1, 1]
        \<noteq> Undefined NullDereference
    \<and> Draw example_env example_state ''same'' \<noteq> Undefined NullDereference"
    by simp
  from u(1,2) a b show ?thesis by blast
qed

end
